theory Spec2Isabelle
  imports Complex_Main
begin

section \<open>Solar investment platform: the ROI calculation of check.py\<close>

text \<open>
  The script \<^verbatim>\<open>check.py\<close> is a Streamlit page: it reads a reference table, collects the
  widget values of the sidebar, and on "Calculate ROI" runs one arithmetic block per
  selected city. \<^verbatim>\<open>app.py\<close> is the earlier single-city version of the same page; its
  calculation block consists of the same expressions.

  Numbers: the widget and table values are Python/NumPy numbers. They are modelled as
  exact reals, so the theorems below are about the formulas the code evaluates, not about
  the rounding of binary floating point. A raise of the source is a value \<open>Inl e\<close>.
\<close>

subsection \<open>Errors\<close>

datatype py_error = IndexError | ZeroDivisionError | ConnectionError | JSONDecodeError

subsection \<open>The reference table\<close>

text \<open>One row of \<^verbatim>\<open>data.csv\<close>, with the column names of the file.\<close>

record row =
  Country :: string
  City :: string
  GHI_Daily :: real
  Tariff_USD_kWh :: real
  Incentive_Type :: string
  Incentive_Value_USD :: real
  Policy_Summary :: string
  Local_Currency_Code :: string
  Local_Currency_Symbol :: string
  USD_to_Local_Rate :: real
  Latitude :: real
  Longitude :: real

type_synonym dataframe = "row list"

text \<open>\<^verbatim>\<open>frame.iloc[0]\<close>: the first row of a frame; IndexError on an empty frame.\<close>

definition iloc0 :: "'a list \<Rightarrow> py_error + 'a" where
  "iloc0 frame = (case frame of [] \<Rightarrow> Inl IndexError | x # _ \<Rightarrow> Inr x)"

text \<open>\<^verbatim>\<open>df[df['City'] == city_name].iloc[0]\<close> (check.py line 192, app.py line 137).\<close>

definition city_data :: "dataframe \<Rightarrow> string \<Rightarrow> py_error + row" where
  "city_data df city_name = iloc0 (filter (\<lambda>r. City r = city_name) df)"

text \<open>\<^verbatim>\<open>df[df['Country'] == selected_country].iloc[0]\<close> (check.py line 123).\<close>

definition country_data :: "dataframe \<Rightarrow> string \<Rightarrow> py_error + row" where
  "country_data df selected_country = iloc0 (filter (\<lambda>r. Country r = selected_country) df)"

text \<open>\<^verbatim>\<open>df[df['Country'] == selected_country]['City'].tolist()\<close> (check.py line 98).\<close>

definition cities_in_country :: "dataframe \<Rightarrow> string \<Rightarrow> string list" where
  "cities_in_country df selected_country =
     map City (filter (\<lambda>r. Country r = selected_country) df)"

subsection \<open>The sidebar (check.py lines 80-155)\<close>

text \<open>The values the widgets of the sidebar return in one run of the script.\<close>

record sidebar =
  compare_mode :: bool
  selected_country :: string
  selected_city :: "string option"
  selected_cities :: "string list"
  system_size_kw :: real
  system_cost_usd :: real
  display_currency :: string
  calculate_button :: bool

text \<open>Python's truth value of \<^verbatim>\<open>selected_city\<close>: \<^verbatim>\<open>None\<close> and the empty string are false.\<close>

definition truthy :: "string option \<Rightarrow> bool" where
  "truthy s = (case s of None \<Rightarrow> False | Some c \<Rightarrow> c \<noteq> [])"

text \<open>
  \<^verbatim>\<open>requests.get(url)\<close> either raises (no connection) or returns a response with a
  status code and a body; \<^verbatim>\<open>r.json()\<close> raises on a body that is not JSON, here a body
  \<open>None\<close>.
\<close>

record response =
  status_code :: int
  body_json :: "string option"

definition load_lottie_url :: "py_error + response \<Rightarrow> py_error + string option" where
  "load_lottie_url get =
     (case get of
        Inl e \<Rightarrow> Inl e
      | Inr r \<Rightarrow>
          if status_code r \<noteq> 200 then Inr None
          else (case body_json r of None \<Rightarrow> Inl JSONDecodeError | Some j \<Rightarrow> Inr (Some j)))"

text \<open>Lines 124-126: the currency metadata, read from the row \<^verbatim>\<open>country_data\<close>.\<close>

definition local_code :: "row \<Rightarrow> string" where
  "local_code cd = Local_Currency_Code cd"

definition local_symbol :: "row \<Rightarrow> string" where
  "local_symbol cd = Local_Currency_Symbol cd"

definition local_rate :: "row \<Rightarrow> real" where
  "local_rate cd = USD_to_Local_Rate cd"

text \<open>Line 145: the options of the display currency selector.\<close>

definition currency_options :: "row \<Rightarrow> string list" where
  "currency_options cd = [''USD'', local_code cd]"

subsection \<open>The arithmetic of one city (check.py lines 180-212, app.py lines 145-165)\<close>

definition display_rate :: "sidebar \<Rightarrow> row \<Rightarrow> real" where
  "display_rate sb cd = (if display_currency sb = ''USD'' then 1.0 else local_rate cd)"

definition display_symbol :: "sidebar \<Rightarrow> row \<Rightarrow> string" where
  "display_symbol sb cd = (if display_currency sb = ''USD'' then ''$'' else local_symbol cd)"

definition PERFORMANCE_RATIO :: real where
  "PERFORMANCE_RATIO = 0.75"

definition annual_energy_kwh :: "sidebar \<Rightarrow> row \<Rightarrow> real" where
  "annual_energy_kwh sb r = system_size_kw sb * GHI_Daily r * 365 * PERFORMANCE_RATIO"

definition annual_revenue_usd :: "sidebar \<Rightarrow> row \<Rightarrow> real" where
  "annual_revenue_usd sb r = annual_energy_kwh sb r * Tariff_USD_kWh r"

definition net_system_cost_usd :: "sidebar \<Rightarrow> row \<Rightarrow> real" where
  "net_system_cost_usd sb r =
     (if Incentive_Type r = ''CAPEX_Subsidy''
      then system_cost_usd sb - Incentive_Value_USD r
      else system_cost_usd sb)"

text \<open>Python's \<^verbatim>\<open>/\<close>: a zero divisor raises, where HOL's \<open>x / 0\<close> is \<open>0\<close>.\<close>

definition truediv :: "real \<Rightarrow> real \<Rightarrow> py_error + real" where
  "truediv a b = (if b = 0 then Inl ZeroDivisionError else Inr (a / b))"

definition payback_period_years :: "sidebar \<Rightarrow> row \<Rightarrow> py_error + real" where
  "payback_period_years sb r =
     truediv (net_system_cost_usd sb r) (max 0.01 (annual_revenue_usd sb r))"

definition display_cost :: "sidebar \<Rightarrow> row \<Rightarrow> real" where
  "display_cost sb cd = system_cost_usd sb * display_rate sb cd"

definition display_net_cost :: "sidebar \<Rightarrow> row \<Rightarrow> row \<Rightarrow> real" where
  "display_net_cost sb cd r = net_system_cost_usd sb r * display_rate sb cd"

definition display_revenue :: "sidebar \<Rightarrow> row \<Rightarrow> row \<Rightarrow> real" where
  "display_revenue sb cd r = annual_revenue_usd sb r * display_rate sb cd"

subsection \<open>The result of one city (check.py lines 214-250)\<close>

text \<open>
  \<^verbatim>\<open>create_pdf\<close> prints its arguments into a fixed layout; the document is modelled by
  the values printed.
\<close>

record pdf =
  pdf_country :: string
  pdf_city :: string
  pdf_size :: real
  pdf_cost :: real
  pdf_net_cost :: real
  pdf_revenue :: real
  pdf_payback :: real
  pdf_energy :: real
  pdf_policy :: string
  pdf_symbol :: string
  pdf_currency_code :: string

definition create_pdf ::
  "string \<Rightarrow> string \<Rightarrow> real \<Rightarrow> real \<Rightarrow> real \<Rightarrow> real \<Rightarrow> real \<Rightarrow> real \<Rightarrow> string \<Rightarrow> string \<Rightarrow> string \<Rightarrow> pdf"
  where
  "create_pdf co ci sz cst nc rv pb en po sy cc =
     \<lparr>pdf_country = co, pdf_city = ci, pdf_size = sz, pdf_cost = cst, pdf_net_cost = nc,
      pdf_revenue = rv, pdf_payback = pb, pdf_energy = en, pdf_policy = po,
      pdf_symbol = sy, pdf_currency_code = cc\<rparr>"

text \<open>The dictionary \<^verbatim>\<open>result_dict\<close>, one field per key (\<open>size_kw\<close> is the key \<^verbatim>\<open>size\<close>).\<close>

record result_dict =
  country :: string
  city :: string
  payback :: real
  net_cost :: real
  revenue :: real
  energy :: real
  pdf_bytes :: "pdf option"
  file_name :: string
  incentive_value :: real
  incentive_type :: string
  ghi :: real
  tariff :: real
  size_kw :: real
  cost :: real
  ratio :: real
  symbol :: string
  currency_code :: string

text \<open>The body of the loop for the row \<open>r\<close> found for \<open>city_name\<close>.\<close>

definition city_result :: "sidebar \<Rightarrow> row \<Rightarrow> string \<Rightarrow> row \<Rightarrow> py_error + result_dict" where
  "city_result sb cd city_name r =
     (case payback_period_years sb r of
        Inl e \<Rightarrow> Inl e
      | Inr p \<Rightarrow>
          Inr \<lparr>country = selected_country sb,
               city = city_name,
               payback = p,
               net_cost = display_net_cost sb cd r,
               revenue = display_revenue sb cd r,
               energy = annual_energy_kwh sb r,
               pdf_bytes =
                 (if \<not> compare_mode sb
                  then Some (create_pdf (selected_country sb) city_name (system_size_kw sb)
                               (display_cost sb cd) (display_net_cost sb cd r)
                               (display_revenue sb cd r) p (annual_energy_kwh sb r)
                               (Policy_Summary r) (display_symbol sb cd) (display_currency sb))
                  else None),
               file_name = ''Solar_Report_'' @ selected_country sb @ ''_'' @ city_name @ ''.pdf'',
               incentive_value = Incentive_Value_USD r * display_rate sb cd,
               incentive_type = Incentive_Type r,
               ghi = GHI_Daily r,
               tariff = Tariff_USD_kWh r * display_rate sb cd,
               size_kw = system_size_kw sb,
               cost = display_cost sb cd,
               ratio = PERFORMANCE_RATIO,
               symbol = display_symbol sb cd,
               currency_code = display_currency sb\<rparr>)"

subsection \<open>The calculation (check.py lines 164-260)\<close>

text \<open>Lines 169-177: the cities of this run, and the warning of an empty selection.\<close>

definition cities_to_process :: "sidebar \<Rightarrow> string list" where
  "cities_to_process sb =
     (if compare_mode sb then selected_cities sb
      else if truthy (selected_city sb)
           then (case selected_city sb of Some c \<Rightarrow> [c] | None \<Rightarrow> [])
           else [])"

definition selection_warning :: "sidebar \<Rightarrow> string list" where
  "selection_warning sb =
     (if compare_mode sb
      then (if selected_cities sb = []
            then [''Please select at least one city in Compare Mode.''] else [])
      else if truthy (selected_city sb) then []
           else [''Please select a city.''])"

text \<open>
  The loop of lines 191-250 over the cities, \<open>acc\<close> being \<^verbatim>\<open>all_results\<close> so far: a
  raise in one iteration ends the loop.
\<close>

fun all_results ::
  "dataframe \<Rightarrow> sidebar \<Rightarrow> row \<Rightarrow> string list \<Rightarrow> result_dict list \<Rightarrow> py_error + result_dict list"
  where
  "all_results df sb cd [] acc = Inr acc"
| "all_results df sb cd (city_name # rest) acc =
     (case city_data df city_name of
        Inl e \<Rightarrow> Inl e
      | Inr r \<Rightarrow>
          (case city_result sb cd city_name r of
             Inl e \<Rightarrow> Inl e
           | Inr d \<Rightarrow> all_results df sb cd rest (acc @ [d])))"

text \<open>
  What one run leaves behind: \<^verbatim>\<open>st.session_state.results_data\<close> (\<^verbatim>\<open>None\<close>, one
  dictionary or a list of them), and the warnings and toasts shown.
\<close>

datatype stored = Nothing | OneDict result_dict | DictList "result_dict list"

record page =
  results_data :: stored
  warnings :: "string list"
  toasts :: "string list"

text \<open>Lines 252-257: the save, guarded by \<^verbatim>\<open>if all_results\<close>.\<close>

definition save_results :: "sidebar \<Rightarrow> result_dict list \<Rightarrow> page \<Rightarrow> page" where
  "save_results sb rs pg =
     (case rs of
        [] \<Rightarrow> pg
      | d # _ \<Rightarrow>
          if compare_mode sb then pg\<lparr>results_data := DictList rs\<rparr>
          else pg\<lparr>results_data := OneDict d\<rparr>)"

definition roi_calculation :: "dataframe \<Rightarrow> sidebar \<Rightarrow> row \<Rightarrow> page \<Rightarrow> py_error + page" where
  "roi_calculation df sb cd pg =
     (let pg1 = pg\<lparr>warnings := warnings pg @ selection_warning sb\<rparr> in
      case all_results df sb cd (cities_to_process sb) [] of
        Inl e \<Rightarrow> Inl e
      | Inr rs \<Rightarrow>
          (let pg2 = save_results sb rs pg1 in
           Inr (pg2\<lparr>toasts := toasts pg2 @ [''Success! Calculation complete.'']\<rparr>)))"

subsection \<open>One run of the script (check.py lines 80-260)\<close>

text \<open>
  The sidebar fetches the animation (lines 84-87), looks up the example of the selected
  city (lines 117-118) and the row of the selected country (line 123); a raise of any of
  them ends the run. The calculation runs when the button was pressed.
\<close>

definition script :: "py_error + response \<Rightarrow> dataframe \<Rightarrow> sidebar \<Rightarrow> page \<Rightarrow> py_error + page" where
  "script get df sb pg =
     (case load_lottie_url get of
        Inl e \<Rightarrow> Inl e
      | Inr lottie_json \<Rightarrow>
          (case (if \<not> compare_mode sb \<and> truthy (selected_city sb)
                 then (case selected_city sb of
                         Some c \<Rightarrow> map_sum id Some (city_data df c)
                       | None \<Rightarrow> Inr None)
                 else Inr None) of
             Inl e \<Rightarrow> Inl e
           | Inr city_data_for_example \<Rightarrow>
               (case country_data df (selected_country sb) of
                  Inl e \<Rightarrow> Inl e
                | Inr cd \<Rightarrow>
                    if calculate_button sb then roi_calculation df sb cd pg else Inr pg)))"

subsection \<open>Test data\<close>

text \<open>
  The example of the specification: 5 kW, 6000 USD, irradiance 5.5, tariff 0.15, no
  incentive, shown in USD.
\<close>

definition example_row :: row where
  "example_row =
     \<lparr>Country = ''India'', City = ''Delhi'', GHI_Daily = 5.5, Tariff_USD_kWh = 0.15,
      Incentive_Type = ''None'', Incentive_Value_USD = 0, Policy_Summary = ''No incentive'',
      Local_Currency_Code = ''INR'', Local_Currency_Symbol = ''Rs'', USD_to_Local_Rate = 83,
      Latitude = 28.6, Longitude = 77.2\<rparr>"

definition example_sidebar :: sidebar where
  "example_sidebar =
     \<lparr>compare_mode = False, selected_country = ''India'', selected_city = Some ''Delhi'',
      selected_cities = [], system_size_kw = 5, system_cost_usd = 6000,
      display_currency = ''USD'', calculate_button = True\<rparr>"

text \<open>A row with a capital subsidy larger than the example's cost.\<close>

definition subsidy_row :: row where
  "subsidy_row =
     example_row\<lparr>City := ''Mumbai'', Incentive_Type := ''CAPEX_Subsidy'',
                 Incentive_Value_USD := 7000\<rparr>"

text \<open>Two countries with a city of the same name.\<close>

definition tripoli_libya :: row where
  "tripoli_libya =
     \<lparr>Country = ''Libya'', City = ''Tripoli'', GHI_Daily = 6, Tariff_USD_kWh = 0.02,
      Incentive_Type = ''None'', Incentive_Value_USD = 0, Policy_Summary = ''None'',
      Local_Currency_Code = ''LYD'', Local_Currency_Symbol = ''LD'', USD_to_Local_Rate = 5,
      Latitude = 32.9, Longitude = 13.2\<rparr>"

definition tripoli_lebanon :: row where
  "tripoli_lebanon =
     \<lparr>Country = ''Lebanon'', City = ''Tripoli'', GHI_Daily = 5, Tariff_USD_kWh = 0.1,
      Incentive_Type = ''CAPEX_Subsidy'', Incentive_Value_USD = 500, Policy_Summary = ''Grant'',
      Local_Currency_Code = ''LBP'', Local_Currency_Symbol = ''LL'', USD_to_Local_Rate = 89500,
      Latitude = 34.4, Longitude = 35.8\<rparr>"

definition lebanon_sidebar :: sidebar where
  "lebanon_sidebar =
     \<lparr>compare_mode = False, selected_country = ''Lebanon'', selected_city = Some ''Tripoli'',
      selected_cities = [], system_size_kw = 5, system_cost_usd = 6000,
      display_currency = ''USD'', calculate_button = True\<rparr>"

definition empty_page :: page where
  "empty_page = \<lparr>results_data = Nothing, warnings = [], toasts = []\<rparr>"


definition two_tripolis :: dataframe where
  "two_tripolis = [tripoli_libya, tripoli_lebanon]"

text \<open>The example's sidebar in compare mode, with the cities \<open>cs\<close> selected.\<close>

definition compare_sidebar :: "string list \<Rightarrow> sidebar" where
  "compare_sidebar cs =
     example_sidebar\<lparr>compare_mode := True, selected_city := None, selected_cities := cs\<rparr>"

text \<open>Two answers of the animation's host.\<close>

definition ok_response :: response where
  "ok_response = \<lparr>status_code = 200, body_json = Some ''{}''\<rparr>"

definition not_found_response :: response where
  "not_found_response = \<lparr>status_code = 404, body_json = None\<rparr>"

text \<open>
  Two cities of one country whose rows carry different exchange rates, and a sidebar that
  selects the second of them and the local currency.
\<close>

definition mumbai_row :: row where
  "mumbai_row = example_row\<lparr>City := ''Mumbai'', USD_to_Local_Rate := 90\<rparr>"

definition rates_table :: dataframe where
  "rates_table = [example_row, mumbai_row]"

definition mumbai_sidebar :: sidebar where
  "mumbai_sidebar =
     example_sidebar\<lparr>selected_city := Some ''Mumbai'', display_currency := ''INR''\<rparr>"



section \<open>Theorems\<close>

subsection \<open>Auxiliary facts\<close>

lemma max_floor_pos: "0 < max (0.01::real) x"
  by (simp add: less_max_iff_disj)

lemma payback_period_years_Inr:
  "payback_period_years sb r =
     Inr (net_system_cost_usd sb r / max 0.01 (annual_revenue_usd sb r))"
  using max_floor_pos [of "annual_revenue_usd sb r"]
  by (simp add: payback_period_years_def truediv_def)

lemma city_result_Inr: "\<exists>d. city_result sb cd c r = Inr d"
  by (simp add: city_result_def payback_period_years_Inr)


lemma city_data_Inl: "city_data df c = Inl e \<Longrightarrow> e = IndexError"
  by (auto simp: city_data_def iloc0_def split: list.splits)

lemma city_data_missing: "(\<forall>r \<in> set df. City r \<noteq> c) \<longleftrightarrow> city_data df c = Inl IndexError"
proof (cases "filter (\<lambda>r. City r = c) df")
  case Nil
  then show ?thesis
    by (simp add: city_data_def iloc0_def) (simp add: filter_empty_conv)
next
  case (Cons x xs)
  then have "x \<in> set (filter (\<lambda>r. City r = c) df)" by simp
  then have "x \<in> set df \<and> City x = c" by simp
  then show ?thesis
    using Cons by (auto simp: city_data_def iloc0_def)
qed





lemma all_results_missing:
  assumes "c \<in> set cs" and "city_data df c = Inl IndexError"
  shows "all_results df sb cd cs acc = Inl IndexError"
  using assms
proof (induction cs arbitrary: acc)
  case Nil
  then show ?case by simp
next
  case (Cons c' cs)
  show ?case
  proof (cases "city_data df c'")
    case (Inl e)
    then show ?thesis using city_data_Inl [OF Inl] by simp
  next
    case (Inr r)
    obtain d where d: "city_result sb cd c' r = Inr d"
      using city_result_Inr by blast
    have "c \<noteq> c'" using Inr Cons.prems(2) by auto
    then have "c \<in> set cs" using Cons.prems(1) by simp
    then show ?thesis using Inr d Cons.IH Cons.prems(2) by simp
  qed
qed



text \<open>\<^verbatim>\<open>country_data\<close> is the first row of the table with the selected country.\<close>

lemma country_data_first:
  "country_data df k = Inr cd \<longleftrightarrow> find (\<lambda>r. Country r = k) df = Some cd"
  by (induction df) (auto simp: country_data_def iloc0_def)

lemma find_Some_mem: "find P xs = Some x \<Longrightarrow> x \<in> set xs \<and> P x"
  by (induction xs) (auto split: if_splits)

text \<open>A run in single mode whose lookups succeed stores the result of the selected city.\<close>

lemma script_single:
  assumes "load_lottie_url get = Inr j"
    and "\<not> compare_mode sb" and "selected_city sb = Some c" and "c \<noteq> []"
    and "city_data df c = Inr r"
    and "country_data df (selected_country sb) = Inr cd"
    and "calculate_button sb"
    and "city_result sb cd c r = Inr d"
  shows "script get df sb pg =
           Inr (pg\<lparr>results_data := OneDict d,
                    toasts := toasts pg @ [''Success! Calculation complete.'']\<rparr>)"
  using assms
  by (simp add: script_def truthy_def roi_calculation_def cities_to_process_def
      selection_warning_def save_results_def)

text \<open>A response other than 200 makes \<^verbatim>\<open>load_lottie_url\<close> return \<^verbatim>\<open>None\<close>; the run is that of a successful fetch.\<close>

lemma non_success_response_absorbed:
  "status_code r \<noteq> 200 \<Longrightarrow>
   load_lottie_url (Inr r) = Inr None \<and> script (Inr r) df sb pg = script (Inr ok_response) df sb pg"
  by (simp add: load_lottie_url_def script_def ok_response_def)

subsection \<open>C1: energy and revenue\<close>

text \<open>
  Claim C1, as stated, gives the annual revenue of the example as 1129.22. The code
  computes 7528.125 * 0.15 = 1129.21875, which is 1129.22 only to the two decimals of the
  money format.
\<close>

theorem example_revenue_not_rounded:
  "annual_revenue_usd example_sidebar example_row \<noteq> 1129.22"
  by (simp add: annual_revenue_usd_def annual_energy_kwh_def PERFORMANCE_RATIO_def
      example_sidebar_def example_row_def)

text \<open>
  Claim C1, amended: for every row and every request the loop body returns a result whose
  energy is size * irradiance * 365 * 0.75, the annual revenue in USD is that energy times
  the tariff, and the stored revenue is the same amount times the display rate. For the
  example (5 kW, 6000 USD, irradiance 5.5, tariff 0.15, no incentive) the energy is
  7528.125, the revenue 1129.21875 (1129.22 to two decimals), the net cost 6000 and the
  payback 6000 / 1129.21875, within 0.005 of 5.31 years.
\<close>

theorem roi_energy_revenue:
  "(\<exists>d. city_result sb cd c r = Inr d
        \<and> energy d = system_size_kw sb * GHI_Daily r * 365 * 0.75
        \<and> annual_revenue_usd sb r = energy d * Tariff_USD_kWh r
        \<and> revenue d = energy d * Tariff_USD_kWh r * display_rate sb cd)
   \<and> annual_energy_kwh example_sidebar example_row = 7528.125
   \<and> annual_revenue_usd example_sidebar example_row = 1129.21875
   \<and> \<bar>annual_revenue_usd example_sidebar example_row - 1129.22\<bar> < 0.005
   \<and> net_system_cost_usd example_sidebar example_row = 6000
   \<and> payback_period_years example_sidebar example_row = Inr (6000 / 1129.21875)
   \<and> \<bar>6000 / 1129.21875 - (5.31::real)\<bar> < 0.005"
proof -
  have e: "annual_energy_kwh example_sidebar example_row = 7528.125"
    by (simp add: annual_energy_kwh_def PERFORMANCE_RATIO_def example_sidebar_def example_row_def)
  have v: "annual_revenue_usd example_sidebar example_row = 1129.21875"
    by (simp add: annual_revenue_usd_def e) (simp add: example_row_def)
  have n: "net_system_cost_usd example_sidebar example_row = 6000"
    by (simp add: net_system_cost_usd_def example_sidebar_def example_row_def)
  have p: "payback_period_years example_sidebar example_row = Inr (6000 / 1129.21875)"
    by (simp add: payback_period_years_Inr n v)
  have g: "\<exists>d. city_result sb cd c r = Inr d
        \<and> energy d = system_size_kw sb * GHI_Daily r * 365 * 0.75
        \<and> annual_revenue_usd sb r = energy d * Tariff_USD_kWh r
        \<and> revenue d = energy d * Tariff_USD_kWh r * display_rate sb cd"
    by (simp add: city_result_def payback_period_years_Inr annual_energy_kwh_def
        PERFORMANCE_RATIO_def annual_revenue_usd_def display_revenue_def)
  show ?thesis using e v n p g by simp
qed

text \<open>The general part of C1 at the example row, shown in USD.\<close>

theorem roi_energy_revenue_witness:
  "\<exists>d. city_result example_sidebar example_row ''Delhi'' example_row = Inr d
        \<and> energy d = 7528.125 \<and> revenue d = 1129.21875"
proof -
  from roi_energy_revenue [of example_sidebar example_row "''Delhi''" example_row]
  obtain d where d: "city_result example_sidebar example_row ''Delhi'' example_row = Inr d"
    and e: "energy d = system_size_kw example_sidebar * GHI_Daily example_row * 365 * 0.75"
    and v: "revenue d = energy d * Tariff_USD_kWh example_row
                          * display_rate example_sidebar example_row"
    by blast
  have e': "energy d = 7528.125"
    using e by (simp add: example_sidebar_def example_row_def)
  have "revenue d = 1129.21875"
    using v by (simp add: e' example_sidebar_def example_row_def display_rate_def)
  with d e' show ?thesis by blast
qed

subsection \<open>C2: the incentive branch\<close>

text \<open>
  Claim C2: the net cost is cost minus incentive value when the row's incentive type is
  \<^verbatim>\<open>CAPEX_Subsidy\<close>, and the cost itself for every other incentive type (so that, for
  a non-zero incentive value, it is cost minus incentive value exactly for that type);
  the stored net cost is this amount times the display rate.
\<close>

theorem net_cost_incentive_branch:
  "(Incentive_Type r = ''CAPEX_Subsidy'' \<longrightarrow>
      net_system_cost_usd sb r = system_cost_usd sb - Incentive_Value_USD r)
   \<and> (Incentive_Type r \<noteq> ''CAPEX_Subsidy'' \<longrightarrow> net_system_cost_usd sb r = system_cost_usd sb)
   \<and> (Incentive_Value_USD r \<noteq> 0 \<longrightarrow>
        (net_system_cost_usd sb r = system_cost_usd sb - Incentive_Value_USD r
           \<longleftrightarrow> Incentive_Type r = ''CAPEX_Subsidy''))
   \<and> (\<exists>d. city_result sb cd c r = Inr d
          \<and> net_cost d = net_system_cost_usd sb r * display_rate sb cd)"
  by (simp add: net_system_cost_usd_def city_result_def payback_period_years_Inr
      display_net_cost_def)

text \<open>Both branches of C2, at a subsidised row and at the example row.\<close>

theorem net_cost_incentive_branch_witness:
  "Incentive_Type subsidy_row = ''CAPEX_Subsidy''
   \<and> net_system_cost_usd example_sidebar subsidy_row = 6000 - 7000
   \<and> Incentive_Value_USD subsidy_row \<noteq> 0
   \<and> Incentive_Type example_row \<noteq> ''CAPEX_Subsidy''
   \<and> net_system_cost_usd example_sidebar example_row = 6000"
  using net_cost_incentive_branch [of subsidy_row example_sidebar example_row "''Mumbai''"]
        net_cost_incentive_branch [of example_row example_sidebar example_row "''Delhi''"]
  by (simp add: subsidy_row_def example_row_def example_sidebar_def)

subsection \<open>C3: the payback division\<close>

text \<open>
  Claim C3: the payback is net cost / max(0.01, annual revenue); the divisor is at least
  0.01, so the division never raises ZeroDivisionError, and the payback is not negative
  when the net cost is not negative.
\<close>

theorem payback_floor_guard:
  "payback_period_years sb r =
     Inr (net_system_cost_usd sb r / max 0.01 (annual_revenue_usd sb r))
   \<and> 0.01 \<le> max 0.01 (annual_revenue_usd sb r)
   \<and> payback_period_years sb r \<noteq> Inl ZeroDivisionError
   \<and> (0 \<le> net_system_cost_usd sb r \<longrightarrow>
        (\<exists>p. payback_period_years sb r = Inr p \<and> 0 \<le> p))"
  using max_floor_pos [of "annual_revenue_usd sb r"]
  by (simp add: payback_period_years_Inr)

text \<open>C3 at the example row, whose net cost is 6000.\<close>

theorem payback_floor_guard_witness:
  "0 \<le> net_system_cost_usd example_sidebar example_row
   \<and> (\<exists>p. payback_period_years example_sidebar example_row = Inr p \<and> 0 \<le> p)"
  using payback_floor_guard [of example_sidebar example_row]
  by (simp add: net_system_cost_usd_def example_sidebar_def example_row_def)

subsection \<open>C4: the display currency\<close>

text \<open>
  Claim C4, as stated, takes the rate, the symbol and the code from the selected location.
  The code reads them from the first row of the selected country (line 123). With Delhi
  (rate 83) listed before Mumbai (rate 90) and Mumbai selected, the result of Mumbai is
  stored with the amounts converted at 83.
\<close>

theorem currency_row_is_first_of_country:
  "script (Inr ok_response) rates_table mumbai_sidebar empty_page =
     Inr \<lparr>results_data = OneDict
            \<lparr>country = ''India'', city = ''Mumbai'', payback = 12800 / 2409,
             net_cost = 6000 * 83, revenue = 1129.21875 * 83, energy = 7528.125,
             pdf_bytes = Some (create_pdf ''India'' ''Mumbai'' 5 (6000 * 83) (6000 * 83)
                                 (1129.21875 * 83) (12800 / 2409) 7528.125 ''No incentive''
                                 ''Rs'' ''INR''),
             file_name = ''Solar_Report_India_Mumbai.pdf'',
             incentive_value = 0, incentive_type = ''None'', ghi = 5.5,
             tariff = 0.15 * 83, size_kw = 5, cost = 6000 * 83, ratio = 0.75,
             symbol = ''Rs'', currency_code = ''INR''\<rparr>,
           warnings = [], toasts = [''Success! Calculation complete.'']\<rparr>
   \<and> USD_to_Local_Rate mumbai_row = 90"
proof -
  have c: "city_data rates_table ''Mumbai'' = Inr mumbai_row"
    by (simp add: city_data_def iloc0_def rates_table_def mumbai_row_def example_row_def)
  have k: "country_data rates_table ''India'' = Inr example_row"
    by (simp add: country_data_def iloc0_def rates_table_def example_row_def)
  have s: "selected_city mumbai_sidebar = Some ''Mumbai''"
    "selected_country mumbai_sidebar = ''India''" "\<not> compare_mode mumbai_sidebar"
    "calculate_button mumbai_sidebar"
    by (simp_all add: mumbai_sidebar_def example_sidebar_def)
  have l: "load_lottie_url (Inr ok_response) = Inr (Some ''{}'')"
    by (simp add: load_lottie_url_def ok_response_def)
  have e: "annual_energy_kwh mumbai_sidebar mumbai_row = 7528.125"
    by (simp add: annual_energy_kwh_def PERFORMANCE_RATIO_def mumbai_sidebar_def
        example_sidebar_def mumbai_row_def example_row_def)
  have v: "annual_revenue_usd mumbai_sidebar mumbai_row = 1129.21875"
    by (simp add: annual_revenue_usd_def e) (simp add: mumbai_row_def example_row_def)
  have n: "net_system_cost_usd mumbai_sidebar mumbai_row = 6000"
    by (simp add: net_system_cost_usd_def mumbai_sidebar_def example_sidebar_def
        mumbai_row_def example_row_def)
  have r: "display_rate mumbai_sidebar example_row = 83"
    by (simp add: display_rate_def mumbai_sidebar_def local_rate_def example_row_def)
  have y: "display_symbol mumbai_sidebar example_row = ''Rs''"
    by (simp add: display_symbol_def mumbai_sidebar_def local_symbol_def example_row_def)
  have p: "payback_period_years mumbai_sidebar mumbai_row = Inr (12800 / 2409)"
    by (simp add: payback_period_years_Inr n v)
  have d: "city_result mumbai_sidebar example_row ''Mumbai'' mumbai_row =
     Inr \<lparr>country = ''India'', city = ''Mumbai'', payback = 12800 / 2409,
             net_cost = 6000 * 83, revenue = 1129.21875 * 83, energy = 7528.125,
             pdf_bytes = Some (create_pdf ''India'' ''Mumbai'' 5 (6000 * 83) (6000 * 83)
                                 (1129.21875 * 83) (12800 / 2409) 7528.125 ''No incentive''
                                 ''Rs'' ''INR''),
             file_name = ''Solar_Report_India_Mumbai.pdf'',
             incentive_value = 0, incentive_type = ''None'', ghi = 5.5,
             tariff = 0.15 * 83, size_kw = 5, cost = 6000 * 83, ratio = 0.75,
             symbol = ''Rs'', currency_code = ''INR''\<rparr>"
    unfolding city_result_def p display_net_cost_def display_revenue_def display_cost_def
      e v n r y s
    by (simp add: PERFORMANCE_RATIO_def)
       (simp add: mumbai_sidebar_def example_sidebar_def mumbai_row_def example_row_def)
  have "script (Inr ok_response) rates_table mumbai_sidebar empty_page =
     Inr (empty_page\<lparr>results_data := OneDict
            \<lparr>country = ''India'', city = ''Mumbai'', payback = 12800 / 2409,
             net_cost = 6000 * 83, revenue = 1129.21875 * 83, energy = 7528.125,
             pdf_bytes = Some (create_pdf ''India'' ''Mumbai'' 5 (6000 * 83) (6000 * 83)
                                 (1129.21875 * 83) (12800 / 2409) 7528.125 ''No incentive''
                                 ''Rs'' ''INR''),
             file_name = ''Solar_Report_India_Mumbai.pdf'',
             incentive_value = 0, incentive_type = ''None'', ghi = 5.5,
             tariff = 0.15 * 83, size_kw = 5, cost = 6000 * 83, ratio = 0.75,
             symbol = ''Rs'', currency_code = ''INR''\<rparr>,
           toasts := toasts empty_page @ [''Success! Calculation complete.'']\<rparr>)"
    using k by (intro script_single [OF l s(3) s(1) _ c _ s(4) d]) (simp_all add: s)
  moreover have "USD_to_Local_Rate mumbai_row = 90"
    by (simp add: mumbai_row_def)
  ultimately show ?thesis by (simp add: empty_page_def)
qed

text \<open>
  Claim C4, amended: with the display currency \<^verbatim>\<open>USD\<close> the rate is 1 and the symbol
  \<^verbatim>\<open>$\<close>, so every amount is shown unchanged; otherwise the rate, the symbol and the code
  are the \<^verbatim>\<open>USD_to_Local_Rate\<close>, \<^verbatim>\<open>Local_Currency_Symbol\<close> and
  \<^verbatim>\<open>Local_Currency_Code\<close> of the first row of the table whose country is the selected
  country (the code being the second option of the currency selector); every stored
  amount is the USD amount times the rate, also in the result a single-mode run stores.
\<close>

theorem display_conversion:
  assumes "country_data df (selected_country sb) = Inr cd"
  shows "find (\<lambda>r. Country r = selected_country sb) df = Some cd
   \<and> cd \<in> set df \<and> Country cd = selected_country sb
   \<and> (display_currency sb = ''USD'' \<longrightarrow>
      display_rate sb cd = 1 \<and> display_symbol sb cd = ''$''
      \<and> x * display_rate sb cd = x
      \<and> display_cost sb cd = system_cost_usd sb
      \<and> display_net_cost sb cd r = net_system_cost_usd sb r
      \<and> display_revenue sb cd r = annual_revenue_usd sb r)
   \<and> (display_currency sb \<noteq> ''USD'' \<longrightarrow>
      display_rate sb cd = USD_to_Local_Rate cd
      \<and> display_symbol sb cd = Local_Currency_Symbol cd
      \<and> (display_currency sb \<in> set (currency_options cd) \<longrightarrow>
            display_currency sb = Local_Currency_Code cd))
   \<and> display_cost sb cd = system_cost_usd sb * display_rate sb cd
   \<and> display_net_cost sb cd r = net_system_cost_usd sb r * display_rate sb cd
   \<and> display_revenue sb cd r = annual_revenue_usd sb r * display_rate sb cd
   \<and> (\<exists>d. city_result sb cd c r = Inr d
          \<and> cost d = system_cost_usd sb * display_rate sb cd
          \<and> net_cost d = net_system_cost_usd sb r * display_rate sb cd
          \<and> revenue d = annual_revenue_usd sb r * display_rate sb cd
          \<and> symbol d = display_symbol sb cd
          \<and> currency_code d = display_currency sb
          \<and> ((\<exists>j. load_lottie_url get = Inr j) \<and> calculate_button sb \<and> \<not> compare_mode sb
               \<and> selected_city sb = Some c \<and> c \<noteq> [] \<and> city_data df c = Inr r \<longrightarrow>
              script get df sb pg =
                Inr (pg\<lparr>results_data := OneDict d,
                         toasts := toasts pg @ [''Success! Calculation complete.'']\<rparr>)))"
proof -
  have f: "find (\<lambda>r. Country r = selected_country sb) df = Some cd"
    using assms by (simp add: country_data_first)
  have m: "cd \<in> set df \<and> Country cd = selected_country sb"
    using find_Some_mem [OF f] by simp
  obtain d where d: "city_result sb cd c r = Inr d"
    using city_result_Inr by blast
  have fields: "cost d = system_cost_usd sb * display_rate sb cd"
    "net_cost d = net_system_cost_usd sb r * display_rate sb cd"
    "revenue d = annual_revenue_usd sb r * display_rate sb cd"
    "symbol d = display_symbol sb cd" "currency_code d = display_currency sb"
    using d
    by (auto simp: city_result_def payback_period_years_Inr display_cost_def
        display_net_cost_def display_revenue_def)
  have run: "script get df sb pg =
                Inr (pg\<lparr>results_data := OneDict d,
                         toasts := toasts pg @ [''Success! Calculation complete.'']\<rparr>)"
    if "\<exists>j. load_lottie_url get = Inr j" "calculate_button sb" "\<not> compare_mode sb"
       "selected_city sb = Some c" "c \<noteq> []" "city_data df c = Inr r"
  proof -
    from that(1) obtain j where j: "load_lottie_url get = Inr j" by blast
    show ?thesis
      by (rule script_single [OF j that(3) that(4) that(5) that(6) assms that(2) d])
  qed
  have conv: "(display_currency sb = ''USD'' \<longrightarrow>
      display_rate sb cd = 1 \<and> display_symbol sb cd = ''$''
      \<and> x * display_rate sb cd = x
      \<and> display_cost sb cd = system_cost_usd sb
      \<and> display_net_cost sb cd r = net_system_cost_usd sb r
      \<and> display_revenue sb cd r = annual_revenue_usd sb r)
   \<and> (display_currency sb \<noteq> ''USD'' \<longrightarrow>
      display_rate sb cd = USD_to_Local_Rate cd
      \<and> display_symbol sb cd = Local_Currency_Symbol cd
      \<and> (display_currency sb \<in> set (currency_options cd) \<longrightarrow>
            display_currency sb = Local_Currency_Code cd))
   \<and> display_cost sb cd = system_cost_usd sb * display_rate sb cd
   \<and> display_net_cost sb cd r = net_system_cost_usd sb r * display_rate sb cd
   \<and> display_revenue sb cd r = annual_revenue_usd sb r * display_rate sb cd"
    by (simp add: display_rate_def display_symbol_def display_cost_def display_net_cost_def
        display_revenue_def local_rate_def local_symbol_def local_code_def
        currency_options_def)
  show ?thesis
    using f m conv d fields run by blast
qed

text \<open>
  The amended C4 at the table of Delhi and Mumbai, shown in the local currency with Mumbai
  selected, and at the example shown in USD.
\<close>

theorem display_conversion_witness:
  "country_data rates_table (selected_country mumbai_sidebar) = Inr example_row
   \<and> find (\<lambda>r. Country r = ''India'') rates_table = Some example_row
   \<and> display_currency mumbai_sidebar \<noteq> ''USD''
   \<and> display_currency mumbai_sidebar \<in> set (currency_options example_row)
   \<and> display_rate mumbai_sidebar example_row = 83
   \<and> display_symbol mumbai_sidebar example_row = ''Rs''
   \<and> display_currency mumbai_sidebar = ''INR''
   \<and> display_cost mumbai_sidebar example_row = 6000 * 83
   \<and> country_data rates_table (selected_country example_sidebar) = Inr example_row
   \<and> display_currency example_sidebar = ''USD''
   \<and> display_rate example_sidebar example_row = 1
   \<and> display_symbol example_sidebar example_row = ''$''
   \<and> display_cost example_sidebar example_row = 6000
   \<and> (\<exists>d. script (Inr ok_response) rates_table mumbai_sidebar empty_page
            = Inr \<lparr>results_data = OneDict d, warnings = [],
                   toasts = [''Success! Calculation complete.'']\<rparr>
          \<and> cost d = 6000 * 83 \<and> symbol d = ''Rs'' \<and> currency_code d = ''INR'')"
proof -
  have k: "country_data rates_table (selected_country mumbai_sidebar) = Inr example_row"
    "country_data rates_table (selected_country example_sidebar) = Inr example_row"
    by (simp_all add: country_data_def iloc0_def rates_table_def example_row_def
        mumbai_sidebar_def example_sidebar_def)
  have s: "selected_city mumbai_sidebar = Some ''Mumbai''"
    "selected_country mumbai_sidebar = ''India''" "\<not> compare_mode mumbai_sidebar"
    "calculate_button mumbai_sidebar" "display_currency mumbai_sidebar = ''INR''"
    "system_cost_usd mumbai_sidebar = 6000"
    by (simp_all add: mumbai_sidebar_def example_sidebar_def)
  have u: "display_currency example_sidebar = ''USD''" "system_cost_usd example_sidebar = 6000"
    by (simp_all add: example_sidebar_def)
  have o: "currency_options example_row = [''USD'', ''INR'']"
    "USD_to_Local_Rate example_row = 83" "Local_Currency_Symbol example_row = ''Rs''"
    by (simp_all add: currency_options_def local_code_def example_row_def)
  have l: "\<exists>j. load_lottie_url (Inr ok_response) = Inr j"
    by (simp add: load_lottie_url_def ok_response_def)
  have c: "city_data rates_table ''Mumbai'' = Inr mumbai_row"
    by (simp add: city_data_def iloc0_def rates_table_def mumbai_row_def example_row_def)
  note a = display_conversion [OF k(1), of 6000 mumbai_row "''Mumbai''" "Inr ok_response" empty_page]
  note b = display_conversion [OF k(2), of 6000 example_row "''Delhi''" "Inr ok_response" empty_page]
  from a obtain d where d: "cost d = system_cost_usd mumbai_sidebar
        * display_rate mumbai_sidebar example_row"
    "symbol d = display_symbol mumbai_sidebar example_row"
    "currency_code d = display_currency mumbai_sidebar"
    "script (Inr ok_response) rates_table mumbai_sidebar empty_page =
                Inr (empty_page\<lparr>results_data := OneDict d,
                         toasts := toasts empty_page @ [''Success! Calculation complete.'']\<rparr>)"
    using l s c by auto
  have r: "display_rate mumbai_sidebar example_row = 83"
    "display_symbol mumbai_sidebar example_row = ''Rs''"
    "display_cost mumbai_sidebar example_row = 6000 * 83"
    using a s o by simp_all
  have r': "display_rate example_sidebar example_row = 1"
    "display_symbol example_sidebar example_row = ''$''"
    "display_cost example_sidebar example_row = 6000"
    using b u by simp_all
  have f: "find (\<lambda>r. Country r = ''India'') rates_table = Some example_row"
    using a s by simp
  have run: "\<exists>d. script (Inr ok_response) rates_table mumbai_sidebar empty_page
            = Inr \<lparr>results_data = OneDict d, warnings = [],
                   toasts = [''Success! Calculation complete.'']\<rparr>
          \<and> cost d = 6000 * 83 \<and> symbol d = ''Rs'' \<and> currency_code d = ''INR''"
    using d r s by (intro exI [of _ d]) (simp add: empty_page_def)
  show ?thesis
    using k f s o r r' u run by simp
qed

subsection \<open>C5: compare mode\<close>



subsection \<open>C6: nothing selected\<close>



subsection \<open>C7: the animation fetch\<close>

text \<open>
  Claim C7 says that a network failure of the animation fetch is absorbed. In the code a
  raise of \<^verbatim>\<open>requests.get\<close> leaves \<^verbatim>\<open>load_lottie_url\<close> and ends the run of the script
  before the calculation, for every table and every sidebar; at the example, where a 404
  answer lets the calculation store its result, the raise leaves ConnectionError.
\<close>

theorem animation_fetch_raise_ends_run:
  "script (Inl ConnectionError) df sb pg = Inl ConnectionError
   \<and> script (Inl ConnectionError) [example_row] example_sidebar empty_page = Inl ConnectionError
   \<and> (\<exists>d. script (Inr not_found_response) [example_row] example_sidebar empty_page
            = Inr \<lparr>results_data = OneDict d, warnings = [],
                   toasts = [''Success! Calculation complete.'']\<rparr>)"
proof -
  have a: "script (Inl ConnectionError) df' sb' pg' = Inl ConnectionError" for df' sb' pg'
    by (simp add: script_def load_lottie_url_def)
  have c: "city_data [example_row] ''Delhi'' = Inr example_row"
    by (simp add: city_data_def iloc0_def example_row_def)
  have k: "country_data [example_row] ''India'' = Inr example_row"
    by (simp add: country_data_def iloc0_def example_row_def)
  obtain d where d: "city_result example_sidebar example_row ''Delhi'' example_row = Inr d"
    using city_result_Inr by blast
  have s: "selected_city example_sidebar = Some ''Delhi''"
    "selected_country example_sidebar = ''India''" "\<not> compare_mode example_sidebar"
    "calculate_button example_sidebar"
    by (simp_all add: example_sidebar_def)
  have "script (Inr not_found_response) [example_row] example_sidebar empty_page
            = Inr \<lparr>results_data = OneDict d, warnings = [],
                   toasts = [''Success! Calculation complete.'']\<rparr>"
    by (simp add: script_def load_lottie_url_def not_found_response_def s truthy_def c k
        roi_calculation_def cities_to_process_def selection_warning_def d save_results_def
        empty_page_def)
  with a show ?thesis by blast
qed

subsection \<open>C8: the key of the row lookup\<close>

text \<open>
  Claim C8 says that the row used for a selected (country, city) pair is the row of that
  pair. With Tripoli in Libya listed before Tripoli in Lebanon, the selection (Lebanon,
  Tripoli) is offered by the city selector, the lookup by city name returns the Libyan
  row, and the stored result, labelled Lebanon, carries the Libyan irradiance, tariff and
  incentive; the currency row is the first row of Lebanon.
\<close>

theorem city_lookup_ignores_country:
  "cities_in_country two_tripolis ''Lebanon'' = [''Tripoli'']
   \<and> city_data two_tripolis ''Tripoli'' = Inr tripoli_libya
   \<and> country_data two_tripolis ''Lebanon'' = Inr tripoli_lebanon
   \<and> (\<exists>d. script (Inr ok_response) two_tripolis lebanon_sidebar empty_page
            = Inr \<lparr>results_data = OneDict d, warnings = [],
                   toasts = [''Success! Calculation complete.'']\<rparr>
          \<and> country d = ''Lebanon'' \<and> city d = ''Tripoli''
          \<and> ghi d = GHI_Daily tripoli_libya \<and> ghi d \<noteq> GHI_Daily tripoli_lebanon
          \<and> tariff d = Tariff_USD_kWh tripoli_libya \<and> tariff d \<noteq> Tariff_USD_kWh tripoli_lebanon
          \<and> incentive_type d = ''None''
          \<and> net_cost d = 6000 \<and> net_cost d \<noteq> 6000 - Incentive_Value_USD tripoli_lebanon)"
proof -
  have c: "city_data two_tripolis ''Tripoli'' = Inr tripoli_libya"
    by (simp add: city_data_def iloc0_def two_tripolis_def tripoli_libya_def)
  have k: "country_data two_tripolis ''Lebanon'' = Inr tripoli_lebanon"
    by (simp add: country_data_def iloc0_def two_tripolis_def tripoli_libya_def
        tripoli_lebanon_def)
  have i: "cities_in_country two_tripolis ''Lebanon'' = [''Tripoli'']"
    by (simp add: cities_in_country_def two_tripolis_def tripoli_libya_def tripoli_lebanon_def)
  obtain d where d: "city_result lebanon_sidebar tripoli_lebanon ''Tripoli'' tripoli_libya = Inr d"
    using city_result_Inr by blast
  have s: "selected_city lebanon_sidebar = Some ''Tripoli''"
    "selected_country lebanon_sidebar = ''Lebanon''" "\<not> compare_mode lebanon_sidebar"
    "calculate_button lebanon_sidebar"
    by (simp_all add: lebanon_sidebar_def)
  have run: "script (Inr ok_response) two_tripolis lebanon_sidebar empty_page
            = Inr \<lparr>results_data = OneDict d, warnings = [],
                   toasts = [''Success! Calculation complete.'']\<rparr>"
    by (simp add: script_def load_lottie_url_def ok_response_def s truthy_def c k
        roi_calculation_def cities_to_process_def selection_warning_def d save_results_def
        empty_page_def)
  have n: "net_system_cost_usd lebanon_sidebar tripoli_libya = 6000"
    by (simp add: net_system_cost_usd_def lebanon_sidebar_def tripoli_libya_def)
  have r: "display_rate lebanon_sidebar tripoli_lebanon = 1"
    by (simp add: display_rate_def lebanon_sidebar_def)
  have f: "country d = ''Lebanon''" "city d = ''Tripoli''" "ghi d = GHI_Daily tripoli_libya"
    "tariff d = Tariff_USD_kWh tripoli_libya" "incentive_type d = Incentive_Type tripoli_libya"
    "net_cost d = 6000"
    using d
    by (auto simp: city_result_def payback_period_years_Inr s display_net_cost_def n r)
  have t: "Incentive_Type tripoli_libya = ''None''"
    by (simp add: tripoli_libya_def)
  have g: "GHI_Daily tripoli_libya \<noteq> GHI_Daily tripoli_lebanon"
    "Tariff_USD_kWh tripoli_libya \<noteq> Tariff_USD_kWh tripoli_lebanon"
    "(6000::real) \<noteq> 6000 - Incentive_Value_USD tripoli_lebanon"
    by (simp_all add: tripoli_libya_def tripoli_lebanon_def)
  show ?thesis using i c k run f g t by auto
qed

subsection \<open>C9: a selected city without a row\<close>

text \<open>
  Claim C9, as stated, has a city without a row skipped with a warning and the other
  cities computed. With Atlantis and Delhi selected and only Delhi in the table, the
  calculation and the run of the script end with IndexError: Delhi is not computed.
\<close>

theorem missing_row_aborts_batch:
  "roi_calculation [example_row] (compare_sidebar [''Atlantis'', ''Delhi'']) example_row empty_page
     = Inl IndexError
   \<and> script (Inr ok_response) [example_row] (compare_sidebar [''Atlantis'', ''Delhi'']) empty_page
     = Inl IndexError"
  by (simp add: roi_calculation_def script_def compare_sidebar_def example_sidebar_def
      cities_to_process_def city_data_def iloc0_def example_row_def load_lottie_url_def
      ok_response_def country_data_def)

text \<open>
  Claim C9, amended: when a city to process has no row in the table, no default is
  substituted: the lookup raises IndexError, which ends the whole calculation with that
  error, so that no warning is shown, no city of the batch is computed into a stored
  result, and the run of the script ends with a raise.
\<close>

theorem missing_row_raises:
  assumes "c \<in> set (cities_to_process sb)" and "\<forall>r \<in> set df. City r \<noteq> c"
  shows "city_data df c = Inl IndexError
     \<and> roi_calculation df sb cd pg = Inl IndexError
     \<and> (calculate_button sb \<longrightarrow> (\<exists>e. script get df sb pg = Inl e))"
proof -
  have m: "city_data df c = Inl IndexError"
    using assms(2) by (simp add: city_data_missing)
  have a: "all_results df sb cd (cities_to_process sb) [] = Inl IndexError"
    by (rule all_results_missing [OF assms(1) m])
  have r: "roi_calculation df sb cd' pg = Inl IndexError" for cd'
    using all_results_missing [OF assms(1) m, of sb cd' "[]"]
    by (simp add: roi_calculation_def)
  have "\<exists>e. script get df sb pg = Inl e" if "calculate_button sb"
    using that r by (auto simp: script_def split: sum.splits)
  with m r show ?thesis by blast
qed

text \<open>The amended C9 at the selection Atlantis, Delhi over a table holding Delhi only.\<close>

theorem missing_row_raises_witness:
  "''Atlantis'' \<in> set (cities_to_process (compare_sidebar [''Atlantis'', ''Delhi'']))
   \<and> City example_row \<noteq> ''Atlantis''
   \<and> city_data [example_row] ''Atlantis'' = Inl IndexError
   \<and> roi_calculation [example_row] (compare_sidebar [''Atlantis'', ''Delhi'']) example_row
        empty_page = Inl IndexError
   \<and> calculate_button (compare_sidebar [''Atlantis'', ''Delhi''])
   \<and> (\<exists>e. script (Inr ok_response) [example_row] (compare_sidebar [''Atlantis'', ''Delhi''])
             empty_page = Inl e)"
proof -
  have a: "''Atlantis'' \<in> set (cities_to_process (compare_sidebar [''Atlantis'', ''Delhi'']))"
    by (simp add: cities_to_process_def compare_sidebar_def)
  have b: "\<forall>r \<in> set [example_row]. City r \<noteq> ''Atlantis''"
    by (simp add: example_row_def)
  have k: "calculate_button (compare_sidebar [''Atlantis'', ''Delhi''])"
    by (simp add: compare_sidebar_def example_sidebar_def)
  from missing_row_raises [OF a b, of example_row empty_page "Inr ok_response"] a b k
  show ?thesis by simp
qed

subsection \<open>C10: a subsidy larger than the cost\<close>

text \<open>
  Claim C10: when the incentive type is \<^verbatim>\<open>CAPEX_Subsidy\<close> and the incentive value
  exceeds the cost, the net cost is strictly negative, the loop body still returns a
  result, and its payback is strictly negative (the unclamped quotient).
\<close>

theorem oversized_subsidy_negative_payback:
  assumes "Incentive_Type r = ''CAPEX_Subsidy''"
    and "system_cost_usd sb < Incentive_Value_USD r"
  shows "net_system_cost_usd sb r < 0
   \<and> (\<exists>d. city_result sb cd c r = Inr d \<and> payback d < 0
          \<and> payback d = net_system_cost_usd sb r / max 0.01 (annual_revenue_usd sb r))"
proof -
  have n: "net_system_cost_usd sb r < 0"
    using assms by (simp add: net_system_cost_usd_def)
  have "net_system_cost_usd sb r / max 0.01 (annual_revenue_usd sb r) < 0"
    using n max_floor_pos [of "annual_revenue_usd sb r"] by (simp add: divide_neg_pos)
  then show ?thesis
    using n by (simp add: city_result_def payback_period_years_Inr)
qed

text \<open>C10 at a row with a subsidy of 7000 on a cost of 6000.\<close>

theorem oversized_subsidy_negative_payback_witness:
  "Incentive_Type subsidy_row = ''CAPEX_Subsidy''
   \<and> system_cost_usd example_sidebar < Incentive_Value_USD subsidy_row
   \<and> net_system_cost_usd example_sidebar subsidy_row < 0
   \<and> (\<exists>d. city_result example_sidebar example_row ''Mumbai'' subsidy_row = Inr d \<and> payback d < 0)"
proof -
  have a: "Incentive_Type subsidy_row = ''CAPEX_Subsidy''"
    by (simp add: subsidy_row_def)
  have b: "system_cost_usd example_sidebar < Incentive_Value_USD subsidy_row"
    by (simp add: subsidy_row_def example_sidebar_def)
  show ?thesis using a b oversized_subsidy_negative_payback [OF a b, of example_row "''Mumbai''"] by blast
qed

end
